theory Spec2Isabelle
  imports Main "HOL-Library.Sublist"
begin

section \<open>The cookie-jar plugin of \<^verbatim>\<open>src/index.js\<close>\<close>

text \<open>
  The plugin wires a cookie jar (the \<^verbatim>\<open>CookieJar\<close> class of the tough-cookie package)
  into the request and response hooks of an HTTP client. The hooks, the URL resolution
  and the extraction of \<^verbatim>\<open>Set-Cookie\<close> values are embedded below from the JavaScript
  source, function by function and under the names of the source.
\<close>

subsection \<open>JavaScript values the hooks look at\<close>

text \<open>
  A property that may be missing (\<^verbatim>\<open>undefined\<close>) is an \<open>option\<close>. A string is truthy
  when it is present and not empty; \<^verbatim>\<open>a || b\<close> is \<open>a\<close> when \<open>a\<close> is truthy and
  \<open>b\<close> otherwise.
\<close>

definition truthy :: "string option \<Rightarrow> bool" where
  "truthy v = (case v of None \<Rightarrow> False | Some s \<Rightarrow> s \<noteq> [])"

definition js_or :: "string option \<Rightarrow> string option \<Rightarrow> string option" where
  "js_or a b = (if truthy a then a else b)"

text \<open>The end of a chain \<^verbatim>\<open>a || b || ''\<close>: the value is a string.\<close>

definition or_empty :: "string option \<Rightarrow> string" where
  "or_empty a = (if truthy a then the a else [])"

text \<open>\<^verbatim>\<open>String.prototype.startsWith\<close>, comparing character by character.\<close>

fun startsWith :: "string \<Rightarrow> string \<Rightarrow> bool" where
  "startsWith s [] = True"
| "startsWith [] (p # ps) = False"
| "startsWith (c # cs) (p # ps) = (c = p \<and> startsWith cs ps)"

text \<open>
  \<^verbatim>\<open>base.replace(/\/$/, '')\<close>: the pattern has no flag, so \<^verbatim>\<open>$\<close> is the end of the
  input; the scan moves right until a slash is the last character, and removes it.
\<close>

fun replace_trailing_slash :: "string \<Rightarrow> string" where
  "replace_trailing_slash [] = []"
| "replace_trailing_slash [c] = (if c = CHR ''/'' then [] else [c])"
| "replace_trailing_slash (c # d # cs) = c # replace_trailing_slash (d # cs)"

text \<open>\<^verbatim>\<open>requestUrl.replace(/^\//, '')\<close>: a slash at the start of the input is removed.\<close>

fun replace_leading_slash :: "string \<Rightarrow> string" where
  "replace_leading_slash [] = []"
| "replace_leading_slash (c # cs) = (if c = CHR ''/'' then cs else c # cs)"

subsection \<open>The hook context\<close>

type_synonym headers = "string \<rightharpoonup> string"

record request =
  req_url :: "string option"
  req_baseURL :: "string option"
  req_headers :: "headers option"

record client_config =
  config_baseURL :: "string option"

text \<open>A client; \<^verbatim>\<open>client.jar\<close> is a reference to a jar once a plugin is attached.\<close>

record client =
  client_config :: "client_config option"
  client_jar :: "nat option"

text \<open>
  A \<^verbatim>\<open>Set-Cookie\<close> entry of a Node-like header object
  (\<^verbatim>\<open>res.raw.headers['set-cookie']\<close>, \<^verbatim>\<open>res.meta['set-cookie']\<close>): missing, one
  string, or an array of strings.
\<close>

datatype set_cookie_field = Absent | Str string | Arr "string list"

text \<open>
  The three shapes of \<^verbatim>\<open>res.headers\<close> the source tells apart: an object with a
  \<^verbatim>\<open>getSetCookie\<close> function (the argument is what it returns), an object with only
  a \<^verbatim>\<open>get\<close> function (the argument is what \<^verbatim>\<open>get('set-cookie')\<close> returns, \<open>None\<close> for
  \<^verbatim>\<open>null\<close>), and an object with neither.
\<close>

datatype response_headers =
  WithGetSetCookie "string list"
| WithGet "string option"
| PlainObject

record response =
  res_headers :: "response_headers option"
  res_raw_headers_set_cookie :: set_cookie_field
  res_meta_set_cookie :: set_cookie_field

record hook_context =
  ctx_url :: "string option"
  ctx_req :: "request option"
  ctx_client :: "client option"
  ctx_res :: "response option"

subsection \<open>resolveAbsoluteUrl\<close>

text \<open>\<^verbatim>\<open>context.req?.url\<close> and \<^verbatim>\<open>context.req?.baseURL\<close>.\<close>

definition req_field :: "(request \<Rightarrow> string option) \<Rightarrow> hook_context \<Rightarrow> string option" where
  "req_field f c = (case ctx_req c of None \<Rightarrow> None | Some r \<Rightarrow> f r)"

text \<open>\<^verbatim>\<open>context.client?.config?.baseURL\<close>.\<close>

definition client_baseURL :: "hook_context \<Rightarrow> string option" where
  "client_baseURL c =
     (case ctx_client c of
        None \<Rightarrow> None
      | Some cl \<Rightarrow> (case client_config cl of None \<Rightarrow> None | Some cfg \<Rightarrow> config_baseURL cfg))"

definition resolveAbsoluteUrl :: "hook_context \<Rightarrow> string" where
  "resolveAbsoluteUrl c =
     (if truthy (ctx_url c) then the (ctx_url c)
      else
        let requestUrl = or_empty (req_field req_url c) in
        if startsWith requestUrl ''http://'' \<or> startsWith requestUrl ''https://''
        then requestUrl
        else
          let base = or_empty (js_or (req_field req_baseURL c) (client_baseURL c)) in
          if base = [] then requestUrl
          else replace_trailing_slash base @ ''/'' @ replace_leading_slash requestUrl)"

subsection \<open>The jar the plugin drives\<close>

text \<open>
  The plugin reaches the jar through two calls only, \<^verbatim>\<open>jar.getCookieString(url)\<close> and
  \<^verbatim>\<open>jar.setCookie(value, url, callback)\<close>. The class behind them belongs to the
  tough-cookie package, so the hooks are embedded over any jar: a state of type \<open>'j\<close>
  and the two calls as state transformers. A call that fails (a rejected promise, an
  error handed to the callback) returns \<open>Inl\<close> of the error.
\<close>

datatype js_error = TypeError string | Error string

fun error_message :: "js_error \<Rightarrow> string" where
  "error_message (TypeError m) = m"
| "error_message (Error m) = m"

record 'j jar_ops =
  ops_getCookieString :: "string \<Rightarrow> 'j \<Rightarrow> (js_error + string) \<times> 'j"
  ops_setCookie :: "string \<Rightarrow> string \<Rightarrow> 'j \<Rightarrow> (js_error + unit) \<times> 'j"

subsection \<open>onRequest\<close>

text \<open>
  \<^verbatim>\<open>context.req.headers\<close> reads a property of \<^verbatim>\<open>context.req\<close>: a context with no
  request raises a TypeError there, after the URL is resolved and before the jar is
  asked. A rejected \<^verbatim>\<open>getCookieString\<close> rejects the hook. The new headers object is
  the spread of the old one with the key \<^verbatim>\<open>'Cookie'\<close> set.
\<close>

definition onRequest ::
  "'j jar_ops \<Rightarrow> hook_context \<Rightarrow> 'j \<Rightarrow> (js_error + hook_context) \<times> 'j" where
  "onRequest ops c j =
     (let url = resolveAbsoluteUrl c in
      case ctx_req c of
        None \<Rightarrow> (Inl (TypeError ''Cannot read properties of undefined''), j)
      | Some req \<Rightarrow>
          let headers = (case req_headers req of None \<Rightarrow> Map.empty | Some h \<Rightarrow> h);
              existingCookie = or_empty (js_or (headers ''Cookie'') (headers ''cookie''))
          in
          case ops_getCookieString ops url j of
            (Inl err, j') \<Rightarrow> (Inl err, j')
          | (Inr jarCookie, j') \<Rightarrow>
              if jarCookie \<noteq> [] then
                let mergedCookie =
                      (if existingCookie \<noteq> [] then existingCookie @ ''; '' @ jarCookie
                       else jarCookie)
                in (Inr (c\<lparr>ctx_req :=
                      Some (req\<lparr>req_headers := Some (headers(''Cookie'' \<mapsto> mergedCookie))\<rparr>)\<rparr>), j')
              else (Inr c, j'))"

subsection \<open>storeSetCookiesFromResponse and onResponse\<close>

text \<open>The values read from \<^verbatim>\<open>res.headers\<close>: all of \<^verbatim>\<open>getSetCookie()\<close>, or the one
  truthy string of \<^verbatim>\<open>get('set-cookie')\<close>.\<close>

fun header_values :: "response_headers \<Rightarrow> string list" where
  "header_values (WithGetSetCookie vs) = vs"
| "header_values (WithGet single) = (if truthy single then [the single] else [])"
| "header_values PlainObject = []"

text \<open>Truthiness of a header entry: an array is truthy even when empty.\<close>

fun field_truthy :: "set_cookie_field \<Rightarrow> bool" where
  "field_truthy Absent = False"
| "field_truthy (Str s) = (s \<noteq> [])"
| "field_truthy (Arr vs) = True"

definition maybeArray :: "response \<Rightarrow> set_cookie_field" where
  "maybeArray res =
     (if field_truthy (res_raw_headers_set_cookie res) then res_raw_headers_set_cookie res
      else res_meta_set_cookie res)"

text \<open>\<^verbatim>\<open>if (Array.isArray(maybeArray)) setCookieValues.push(...maybeArray)\<close>.\<close>

fun pushed_values :: "set_cookie_field \<Rightarrow> string list" where
  "pushed_values (Arr vs) = vs"
| "pushed_values (Str s) = []"
| "pushed_values Absent = []"

definition setCookieValues :: "response_headers \<Rightarrow> response \<Rightarrow> string list" where
  "setCookieValues rawHeaders res = header_values rawHeaders @ pushed_values (maybeArray res)"

text \<open>The filter with the set \<^verbatim>\<open>seen\<close>: a value passes the first time it is met.\<close>

fun deduplicate :: "string set \<Rightarrow> string list \<Rightarrow> string list" where
  "deduplicate seen [] = []"
| "deduplicate seen (v # vs) =
     (if v \<in> seen then deduplicate seen vs else v # deduplicate (insert v seen) vs)"

definition warning :: "js_error \<Rightarrow> string" where
  "warning err = ''[cookie-jar] Failed to store cookie: '' @ error_message err"

text \<open>
  The loop over the values: each \<^verbatim>\<open>setCookie\<close> is awaited inside its own
  \<^verbatim>\<open>try\<close>; the \<^verbatim>\<open>catch\<close> writes a warning to the console and the loop goes on. The
  result is the jar and the lines written to the console.
\<close>

fun store_cookies ::
  "'j jar_ops \<Rightarrow> string \<Rightarrow> string list \<Rightarrow> 'j \<Rightarrow> 'j \<times> string list" where
  "store_cookies ops url [] j = (j, [])"
| "store_cookies ops url (v # vs) j =
     (case ops_setCookie ops v url j of
        (Inl err, j') \<Rightarrow>
          (let (j'', console) = store_cookies ops url vs j' in (j'', warning err # console))
      | (Inr u, j') \<Rightarrow> store_cookies ops url vs j')"

text \<open>The first component is how the asynchronous function ends: \<open>Inr ()\<close> when its
  promise resolves, \<open>Inl\<close> of the error when it rejects.\<close>

definition storeSetCookiesFromResponse ::
  "'j jar_ops \<Rightarrow> 'j \<Rightarrow> string \<Rightarrow> response option \<Rightarrow> (js_error + unit) \<times> 'j \<times> string list" where
  "storeSetCookiesFromResponse ops j url res =
     (case res of
        None \<Rightarrow> (Inr (), j, [])
      | Some r \<Rightarrow>
          (case res_headers r of
             None \<Rightarrow> (Inr (), j, [])
           | Some rawHeaders \<Rightarrow>
               (Inr (), store_cookies ops url (deduplicate {} (setCookieValues rawHeaders r)) j)))"

definition onResponse ::
  "'j jar_ops \<Rightarrow> hook_context \<Rightarrow> 'j \<Rightarrow> (js_error + unit) \<times> 'j \<times> string list" where
  "onResponse ops c j =
     (let url = resolveAbsoluteUrl c in storeSetCookiesFromResponse ops j url (ctx_res c))"


subsection \<open>cookieJarPlugin and the jars in memory\<close>

text \<open>
  A jar is an object, and \<^verbatim>\<open>options.jar\<close>, the jar closed over by the hooks and
  \<^verbatim>\<open>client.jar\<close> are references to it. The memory of jars is a list, and a reference
  is a position in it. \<^verbatim>\<open>new CookieJar()\<close> appends a jar (its initial state is the
  first argument) and yields the new position; \<^verbatim>\<open>externalJar ?? new CookieJar()\<close>
  allocates only when no jar was given.
\<close>

record options =
  opt_jar :: "nat option"

record plugin =
  plugin_name :: string
  plugin_jar :: nat

type_synonym 'j heap = "'j list"

definition cookieJarPlugin :: "'j \<Rightarrow> options \<Rightarrow> 'j heap \<Rightarrow> plugin \<times> 'j heap" where
  "cookieJarPlugin new_CookieJar options h =
     (case opt_jar options of
        Some externalJar \<Rightarrow> (\<lparr>plugin_name = ''cookie-jar'', plugin_jar = externalJar\<rparr>, h)
      | None \<Rightarrow> (\<lparr>plugin_name = ''cookie-jar'', plugin_jar = length h\<rparr>, h @ [new_CookieJar]))"

definition onAttach :: "plugin \<Rightarrow> client \<Rightarrow> client" where
  "onAttach p cl = cl\<lparr>client_jar := Some (plugin_jar p)\<rparr>"

text \<open>
  What a client can do to the jar of its plugin: a request or a response passes through
  the hooks, or the program calls a method of \<^verbatim>\<open>client.jar\<close> itself (any state
  transformer of the jar). Every step is one uninterrupted piece of the single-threaded
  program; the jar is as the step leaves it.
\<close>

datatype 'j operation =
  Request hook_context
| Response hook_context
| Direct "'j \<Rightarrow> 'j"

fun perform :: "'j jar_ops \<Rightarrow> 'j operation \<Rightarrow> 'j \<Rightarrow> 'j" where
  "perform ops (Request c) j = snd (onRequest ops c j)"
| "perform ops (Response c) j = fst (snd (onResponse ops c j))"
| "perform ops (Direct f) j = f j"

definition perform_all :: "'j jar_ops \<Rightarrow> 'j operation list \<Rightarrow> 'j \<Rightarrow> 'j" where
  "perform_all ops steps j = foldl (\<lambda>j step. perform ops step j) j steps"

text \<open>
  Two clients, each with its plugin; a schedule is any interleaving of their operations,
  each performed on the jar its client's plugin refers to.
\<close>

datatype who = First | Second

fun jar_of :: "plugin \<Rightarrow> plugin \<Rightarrow> who \<Rightarrow> nat" where
  "jar_of p1 p2 First = plugin_jar p1"
| "jar_of p1 p2 Second = plugin_jar p2"

fun run :: "'j jar_ops \<Rightarrow> (who \<Rightarrow> nat) \<Rightarrow> (who \<times> 'j operation) list \<Rightarrow> 'j heap \<Rightarrow> 'j heap" where
  "run ops ref [] h = h"
| "run ops ref ((w, step) # rest) h =
     run ops ref rest (h[ref w := perform ops step (h ! ref w)])"

text \<open>The operations of a schedule that one client made.\<close>

definition steps_of :: "who \<Rightarrow> (who \<times> 'j operation) list \<Rightarrow> 'j operation list" where
  "steps_of w sched = map snd (filter (\<lambda>step. fst step = w) sched)"

subsection \<open>Reading the result of a hook\<close>

text \<open>The headers of the request in a context, empty when there are none.\<close>

definition request_headers :: "hook_context \<Rightarrow> headers" where
  "request_headers c =
     (case ctx_req c of
        None \<Rightarrow> Map.empty
      | Some req \<Rightarrow> (case req_headers req of None \<Rightarrow> Map.empty | Some h \<Rightarrow> h))"

text \<open>The cookie value the caller supplied: the truthy one of the entries
  \<^verbatim>\<open>'Cookie'\<close> and \<^verbatim>\<open>'cookie'\<close>, in this order, and empty when there is none.\<close>

definition caller_cookie :: "hook_context \<Rightarrow> string" where
  "caller_cookie c =
     (if truthy (request_headers c ''Cookie'') then the (request_headers c ''Cookie'')
      else if truthy (request_headers c ''cookie'') then the (request_headers c ''cookie'')
      else [])"

text \<open>The values that the ingestion of a response stores: none without a response or
  without headers, else the collected values without their duplicates.\<close>

definition ingested_values :: "response option \<Rightarrow> string list" where
  "ingested_values res =
     (case res of
        None \<Rightarrow> []
      | Some r \<Rightarrow>
          (case res_headers r of
             None \<Rightarrow> []
           | Some rawHeaders \<Rightarrow> deduplicate {} (setCookieValues rawHeaders r)))"


subsection \<open>The resolution rule as the specification words it\<close>

text \<open>
  The rule in the words of the specification, on the three strings it reads from the
  context: the context URL, the request URL and the base URL (each empty when not set).
\<close>

definition without_one_trailing_slash :: "string \<Rightarrow> string" where
  "without_one_trailing_slash s = (if suffix ''/'' s then butlast s else s)"

definition without_one_leading_slash :: "string \<Rightarrow> string" where
  "without_one_leading_slash s = (if prefix ''/'' s then tl s else s)"

definition resolve_rule :: "string \<Rightarrow> string \<Rightarrow> string \<Rightarrow> string" where
  "resolve_rule contextUrl requestUrl base =
     (if contextUrl \<noteq> [] then contextUrl
      else if prefix ''http://'' requestUrl \<or> prefix ''https://'' requestUrl then requestUrl
      else if base \<noteq> [] then
        without_one_trailing_slash base @ ''/'' @ without_one_leading_slash requestUrl
      else requestUrl)"

text \<open>The base URL of a context: the request's own, else the client configuration's.\<close>

definition base_of :: "hook_context \<Rightarrow> string" where
  "base_of c =
     (if truthy (req_field req_baseURL c) then the (req_field req_baseURL c)
      else or_empty (client_baseURL c))"

section \<open>The cookie jar\<close>

text \<open>
  The jar behind the plugin is the \<^verbatim>\<open>CookieJar\<close> class of the tough-cookie package,
  which the repository imports and does not contain. The engine of the jar (cookie,
  parser, store, matcher and the jar's operations) is therefore embedded from the
  specification, sections 3 and 4, one definition for each rule it words. Time is a
  number of seconds, and the clock reading is an argument wherever the specification
  says \<^verbatim>\<open>now\<close>. A URL is the parsed URL of the parser's contract: its scheme, host and
  path.
\<close>

text \<open>Modelled from the spec: the \<^verbatim>\<open>Time\<close> of the matcher's contract (section 4.3), in
  seconds.\<close>

type_synonym time = int

text \<open>Modelled from the spec: the \<^verbatim>\<open>URL\<close> of the parser's contract (section 4.1), already
  parsed: an empty or unparsable URL is no value of this type.\<close>

record url =
  url_scheme :: string
  url_host :: string
  url_path :: string

text \<open>Modelled from the spec: the values of the sameSite attribute (section 3).\<close>

datatype same_site = SameSiteUnset | SameSiteStrict | SameSiteLax | SameSiteNone

text \<open>Modelled from the spec: the Cookie value object of section 3, the class
  \<^verbatim>\<open>Cookie\<close> of tough-cookie. The expiry is \<open>None\<close> for a session cookie; a host-only
  cookie has no leading-dot mark.\<close>

record cookie =
  cookie_name :: string
  cookie_value :: string
  cookie_domain :: string
  cookie_hostOnly :: bool
  cookie_path :: string
  cookie_secure :: bool
  cookie_httpOnly :: bool
  cookie_sameSite :: same_site
  cookie_expiry :: "time option"
  cookie_creationTime :: time
  cookie_lastAccessTime :: time

text \<open>Modelled from the spec: the parse errors of section 7, which tough-cookie reports
  through the callback of \<^verbatim>\<open>setCookie\<close>.\<close>

datatype parse_error = MalformedCookie | InvalidName | InvalidValue | DomainMismatch

subsection \<open>Strings\<close>

text \<open>Modelled from the spec: "splits on the first" separator (section 4.1); the second
  part is \<open>None\<close> when the separator does not occur.\<close>

fun split_first :: "char \<Rightarrow> string \<Rightarrow> string \<times> string option" where
  "split_first d [] = ([], None)"
| "split_first d (c # cs) =
     (if c = d then ([], Some cs)
      else (case split_first d cs of (a, b) \<Rightarrow> (c # a, b)))"

text \<open>Modelled from the spec: "splits remaining segments on \<^verbatim>\<open>;\<close>" (section 4.1), at
  every occurrence.\<close>

fun split_on :: "char \<Rightarrow> string \<Rightarrow> string list" where
  "split_on d [] = [[]]"
| "split_on d (c # cs) =
     (if c = d then [] # split_on d cs
      else (case split_on d cs of [] \<Rightarrow> [[c]] | s # ss \<Rightarrow> (c # s) # ss))"

text \<open>Modelled from the spec: the whitespace of section 3: the space and the tab.\<close>

definition whitespace :: "char \<Rightarrow> bool" where
  "whitespace c = (of_char c = (32::nat) \<or> of_char c = (9::nat))"

text \<open>Modelled from the spec: the control characters of section 3, by character code.\<close>

definition control :: "char \<Rightarrow> bool" where
  "control c = (of_char c < (32::nat) \<or> of_char c = (127::nat))"

text \<open>Modelled from the spec: "trims whitespace" (section 4.1), at both ends.\<close>

definition trim :: "string \<Rightarrow> string" where
  "trim s = rev (dropWhile whitespace (rev (dropWhile whitespace s)))"

text \<open>Modelled from the spec: the lowercase of a letter A to Z (section 4.1).\<close>

definition lower_char :: "char \<Rightarrow> char" where
  "lower_char c =
     (case map_of (zip ''ABCDEFGHIJKLMNOPQRSTUVWXYZ'' ''abcdefghijklmnopqrstuvwxyz'') c of
        None \<Rightarrow> c
      | Some l \<Rightarrow> l)"

text \<open>Modelled from the spec: "normalize to lowercase" (section 4.1).\<close>

definition lower :: "string \<Rightarrow> string" where
  "lower s = map lower_char s"

text \<open>Modelled from the spec: the "permitted cookie-octet characters" of a value
  (section 3), which RFC 6265 lists: the visible characters but the double quote, the
  comma, the semicolon and the backslash.\<close>

definition cookie_octet :: "char \<Rightarrow> bool" where
  "cookie_octet c =
     (let n = (of_char c :: nat) in
      n = 33 \<or> (35 \<le> n \<and> n \<le> 43) \<or> (45 \<le> n \<and> n \<le> 58) \<or> (60 \<le> n \<and> n \<le> 91)
      \<or> (93 \<le> n \<and> n \<le> 126))"

text \<open>Modelled from the spec: the number that a string of decimal digits writes
  (section 4.1), \<open>None\<close> when a character is no digit.\<close>

fun digits_value :: "nat \<Rightarrow> string \<Rightarrow> nat option" where
  "digits_value acc [] = Some acc"
| "digits_value acc (c # cs) =
     (case map_of (zip ''0123456789'' [0, 1, 2, 3, 4, 5, 6, 7, 8, 9]) c of
        None \<Rightarrow> None
      | Some d \<Rightarrow> digits_value (10 * acc + d) cs)"

text \<open>Modelled from the spec: "syntactically a signed integer" (section 4.1): digits,
  after an optional minus sign.\<close>

definition signed_integer :: "string \<Rightarrow> int option" where
  "signed_integer s =
     (case s of
        [] \<Rightarrow> None
      | c # cs \<Rightarrow>
          if c = CHR ''-'' then
            (if cs = [] then None else map_option (\<lambda>n. - int n) (digits_value 0 cs))
          else map_option int (digits_value 0 s))"

subsection \<open>Cookie Parser\<close>

text \<open>Modelled from the spec: the attribute name and value pairs of section 4.1; the
  value is absent for a flag attribute.\<close>

type_synonym attributes = "(string \<times> string option) list"

text \<open>Modelled from the spec: the attribute list of section 4.1: each segment after the
  first \<^verbatim>\<open>;\<close> is trimmed and split on its first \<^verbatim>\<open>=\<close>; the value is absent for a flag.
  Attribute names are compared in lowercase.\<close>

definition attribute_list :: "string option \<Rightarrow> attributes" where
  "attribute_list rest =
     (case rest of
        None \<Rightarrow> []
      | Some r \<Rightarrow>
          map (\<lambda>segment. case split_first CHR ''='' (trim segment) of
                 (k, v) \<Rightarrow> (lower (trim k), map_option trim v))
              (split_on CHR '';'' r))"

text \<open>Modelled from the spec: the attributes of a raw cookie: those of what follows its
  first \<^verbatim>\<open>;\<close> (section 4.1).\<close>

definition raw_attributes :: "string \<Rightarrow> attributes" where
  "raw_attributes raw = attribute_list (snd (split_first CHR '';'' raw))"

text \<open>Modelled from the spec: the look-up of an attribute (section 4.1); of several with
  one name the last stands.\<close>

definition attribute :: "string \<Rightarrow> attributes \<Rightarrow> string option option" where
  "attribute k attrs = map_of (rev attrs) k"

text \<open>Modelled from the spec: the value of an attribute that has one (section 4.1).\<close>

definition attribute_value :: "string \<Rightarrow> attributes \<Rightarrow> string option" where
  "attribute_value k attrs = (case attribute k attrs of Some (Some v) \<Rightarrow> Some v | _ \<Rightarrow> None)"

text \<open>Modelled from the spec: the \<^verbatim>\<open>Max-Age\<close> of a raw cookie, when it is a signed
  integer (section 4.1).\<close>

definition max_age :: "string \<Rightarrow> int option" where
  "max_age raw = Option.bind (attribute_value ''max-age'' (raw_attributes raw)) signed_integer"

text \<open>Modelled from the spec: the \<^verbatim>\<open>Expires\<close> date of a raw cookie, when the date reader
  accepts it (section 4.1). The grammar of dates is not in the specification: the date
  reader is an argument.\<close>

definition expires :: "(string \<Rightarrow> time option) \<Rightarrow> string \<Rightarrow> time option" where
  "expires parse_date raw =
     Option.bind (attribute_value ''expires'' (raw_attributes raw)) parse_date"

text \<open>Modelled from the spec: the expiry of section 3: an absolute time derived from
  \<^verbatim>\<open>Max-Age\<close>, which wins when both are present, or from \<^verbatim>\<open>Expires\<close>; a date that does
  not parse is ignored, and the cookie is a session cookie.\<close>

definition expiry_of :: "(string \<Rightarrow> time option) \<Rightarrow> time \<Rightarrow> string \<Rightarrow> time option" where
  "expiry_of parse_date now raw =
     (case max_age raw of
        Some n \<Rightarrow> Some (now + n)
      | None \<Rightarrow> expires parse_date raw)"

text \<open>Modelled from the spec: the quoted value of section 3: the quotes are stripped.\<close>

definition unquote :: "string \<Rightarrow> string option" where
  "unquote v =
     (if 2 \<le> length v \<and> hd v = CHR 0x22 \<and> last v = CHR 0x22 then Some (butlast (tl v))
      else None)"

text \<open>Modelled from the spec: the name and value of section 4.1: no \<^verbatim>\<open>=\<close> in the first
  segment is \<open>MalformedCookie\<close>; an empty name, or one with a control character,
  whitespace, \<^verbatim>\<open>=\<close> or \<^verbatim>\<open>;\<close>, is \<open>InvalidName\<close>; a value that is not quoted and has a
  character that is no cookie-octet is \<open>InvalidValue\<close>.\<close>

definition parse_pair :: "string \<Rightarrow> parse_error + string \<times> string" where
  "parse_pair raw =
     (case split_first CHR ''='' (fst (split_first CHR '';'' raw)) of
        (n, None) \<Rightarrow> Inl MalformedCookie
      | (n, Some v) \<Rightarrow>
          if trim n = [] \<or>
             list_ex (\<lambda>c. control c \<or> whitespace c \<or> c = CHR ''='' \<or> c = CHR '';'') (trim n)
          then Inl InvalidName
          else
            (case unquote (trim v) of
               Some q \<Rightarrow> Inr (trim n, q)
             | None \<Rightarrow>
                 if list_all cookie_octet (trim v) then Inr (trim n, trim v)
                 else Inl InvalidValue))"

text \<open>Modelled from the spec: the Domain attribute of section 4.1: lowercase, without
  the leading dot; it must be a suffix of the request host or equal to it, else the
  cookie is rejected; with no Domain attribute the cookie is host-only and bound to the
  request host. The result is the domain and the host-only flag.\<close>

definition parse_domain :: "string \<Rightarrow> url \<Rightarrow> parse_error + string \<times> bool" where
  "parse_domain raw requestUrl =
     (case attribute_value ''domain'' (raw_attributes raw) of
        None \<Rightarrow> Inr (lower (url_host requestUrl), True)
      | Some d \<Rightarrow>
          let declared = lower (if prefix ''.'' d then tl d else d) in
          if suffix declared (lower (url_host requestUrl)) then Inr (declared, False)
          else Inl DomainMismatch)"

text \<open>Modelled from the spec: the default-path of section 3: the directory of the
  request URL's path, up to and without its last \<^verbatim>\<open>/\<close>, and \<^verbatim>\<open>/\<close> when that is empty
  or the path has no \<^verbatim>\<open>/\<close> in front.\<close>

definition default_path :: "string \<Rightarrow> string" where
  "default_path p =
     (if \<not> prefix ''/'' p then ''/''
      else
        let dir = rev (tl (dropWhile (\<lambda>c. c \<noteq> CHR ''/'') (rev p)))
        in if dir = [] then ''/'' else dir)"

text \<open>Modelled from the spec: the Path attribute of section 4.1: used literally when
  present and starting with \<^verbatim>\<open>/\<close>, else the default-path.\<close>

definition parse_path :: "string \<Rightarrow> url \<Rightarrow> string" where
  "parse_path raw requestUrl =
     (case attribute_value ''path'' (raw_attributes raw) of
        None \<Rightarrow> default_path (url_path requestUrl)
      | Some p \<Rightarrow> if prefix ''/'' p then p else default_path (url_path requestUrl))"

text \<open>Modelled from the spec: sameSite of section 3, one of unset, Strict, Lax, None.\<close>

definition parse_sameSite :: "string \<Rightarrow> same_site" where
  "parse_sameSite raw =
     (case attribute_value ''samesite'' (raw_attributes raw) of
        None \<Rightarrow> SameSiteUnset
      | Some v \<Rightarrow>
          if lower v = ''strict'' then SameSiteStrict
          else if lower v = ''lax'' then SameSiteLax
          else if lower v = ''none'' then SameSiteNone
          else SameSiteUnset)"

text \<open>Modelled from the spec: the contract \<^verbatim>\<open>parse(rawSetCookie, requestUrl)\<close> of section
  4.1, a function of its arguments with no effect; unknown attributes are ignored. The
  cookie is created at the clock reading given.\<close>

definition parse ::
  "(string \<Rightarrow> time option) \<Rightarrow> time \<Rightarrow> string \<Rightarrow> url \<Rightarrow> parse_error + cookie" where
  "parse parse_date now raw requestUrl =
     (case parse_pair raw of
        Inl e \<Rightarrow> Inl e
      | Inr (name, val) \<Rightarrow>
          (case parse_domain raw requestUrl of
             Inl e \<Rightarrow> Inl e
           | Inr (domain, hostOnly) \<Rightarrow>
               Inr \<lparr>cookie_name = name,
                    cookie_value = val,
                    cookie_domain = domain,
                    cookie_hostOnly = hostOnly,
                    cookie_path = parse_path raw requestUrl,
                    cookie_secure = (attribute ''secure'' (raw_attributes raw) \<noteq> None),
                    cookie_httpOnly = (attribute ''httponly'' (raw_attributes raw) \<noteq> None),
                    cookie_sameSite = parse_sameSite raw,
                    cookie_expiry = expiry_of parse_date now raw,
                    cookie_creationTime = now,
                    cookie_lastAccessTime = now\<rparr>))"

subsection \<open>Cookie Store\<close>

text \<open>Modelled from the spec: the store of section 4.2, the \<^verbatim>\<open>MemoryCookieStore\<close> of
  tough-cookie: the cookies in the order of their first insertion, at most one for each
  key (domain, path, name).\<close>

type_synonym store = "cookie list"

text \<open>Modelled from the spec: the identity key of a cookie (section 3): the triple of
  domain, path and name.\<close>

definition key :: "cookie \<Rightarrow> string \<times> string \<times> string" where
  "key c = (cookie_domain c, cookie_path c, cookie_name c)"

text \<open>Modelled from the spec: \<^verbatim>\<open>upsert(cookie)\<close> of section 4.2: it replaces an entry with
  the same key and keeps the creationTime of the entry replaced.\<close>

fun upsert :: "cookie \<Rightarrow> store \<Rightarrow> store" where
  "upsert c [] = [c]"
| "upsert c (x # xs) =
     (if key x = key c then c\<lparr>cookie_creationTime := cookie_creationTime x\<rparr> # xs
      else x # upsert c xs)"

text \<open>Modelled from the spec: the deletion of the entry of a key (section 2, item 3).\<close>

definition delete :: "string \<times> string \<times> string \<Rightarrow> store \<Rightarrow> store" where
  "delete k s = filter (\<lambda>x. key x \<noteq> k) s"

text \<open>Modelled from the spec: a cookie is expired once \<^verbatim>\<open>now >= expiry\<close> (section 3,
  lifecycle); a session cookie never is.\<close>

definition expired :: "time \<Rightarrow> cookie \<Rightarrow> bool" where
  "expired now c = (case cookie_expiry c of None \<Rightarrow> False | Some e \<Rightarrow> e \<le> now)"

text \<open>Modelled from the spec: \<^verbatim>\<open>removeExpired(now)\<close> of section 4.2.\<close>

definition removeExpired :: "time \<Rightarrow> store \<Rightarrow> store" where
  "removeExpired now s = filter (\<lambda>c. \<not> expired now c) s"

text \<open>Modelled from the spec: \<^verbatim>\<open>removeAll()\<close> of section 4.2; it clears everything.\<close>

definition removeAll_cookies :: "store \<Rightarrow> store" where
  "removeAll_cookies s = []"

subsection \<open>Matcher\<close>

text \<open>Modelled from the spec: rule 2 of section 4.3: the request host equals the
  cookie's domain, or, for a domain cookie, ends with a dot and the cookie's domain.\<close>

definition domain_match :: "url \<Rightarrow> cookie \<Rightarrow> bool" where
  "domain_match u c =
     (if cookie_hostOnly c then lower (url_host u) = cookie_domain c
      else lower (url_host u) = cookie_domain c
         \<or> suffix (''.'' @ cookie_domain c) (lower (url_host u)))"

text \<open>Modelled from the spec: rule 3 of section 4.3: the paths are equal, or the request
  path starts with the cookie path and the cookie path ends with \<^verbatim>\<open>/\<close> or the next
  character of the request path is \<^verbatim>\<open>/\<close>.\<close>

definition path_match :: "url \<Rightarrow> cookie \<Rightarrow> bool" where
  "path_match u c =
     (cookie_path c = url_path u \<or>
      (prefix (cookie_path c) (url_path u) \<and>
       (suffix ''/'' (cookie_path c)
        \<or> take 1 (drop (length (cookie_path c)) (url_path u)) = ''/'')))"

text \<open>Modelled from the spec: rule 4 of section 4.3: a secure cookie needs a secure
  transport.\<close>

definition secure_match :: "url \<Rightarrow> cookie \<Rightarrow> bool" where
  "secure_match u c =
     (if cookie_secure c then url_scheme u = ''https'' \<or> url_scheme u = ''wss'' else True)"

text \<open>Modelled from the spec: the ordering of section 4.3: longer path first, then
  earlier creationTime first.\<close>

definition precedes :: "cookie \<Rightarrow> cookie \<Rightarrow> bool" where
  "precedes a b =
     (length (cookie_path b) < length (cookie_path a) \<or>
      (length (cookie_path a) = length (cookie_path b) \<and>
       cookie_creationTime a \<le> cookie_creationTime b))"

text \<open>Modelled from the spec: the ordering of section 4.3 applied to one more cookie: it
  is placed before the first cookie it precedes.\<close>

fun insert_ordered :: "cookie \<Rightarrow> cookie list \<Rightarrow> cookie list" where
  "insert_ordered c [] = [c]"
| "insert_ordered c (x # xs) =
     (if precedes c x then c # x # xs else x # insert_ordered c xs)"

text \<open>Modelled from the spec: the ordering of section 4.3 applied to the selected
  cookies.\<close>

definition order_cookies :: "cookie list \<Rightarrow> cookie list" where
  "order_cookies cs = foldr insert_ordered cs []"

text \<open>Modelled from the spec: the contract \<^verbatim>\<open>select(url, now)\<close> of section 4.3: the
  cookies that are not expired and match the domain, the path and the transport, in
  order; the expired entries leave the store.\<close>

definition select :: "url \<Rightarrow> time \<Rightarrow> store \<Rightarrow> cookie list \<times> store" where
  "select u now s =
     (order_cookies
        (filter (\<lambda>c. \<not> expired now c \<and> domain_match u c \<and> path_match u c \<and> secure_match u c) s),
      removeExpired now s)"

text \<open>Modelled from the spec: "join ... with separator" (section 4.3).\<close>

fun join :: "string \<Rightarrow> string list \<Rightarrow> string" where
  "join sep [] = []"
| "join sep [x] = x"
| "join sep (x # y # ys) = x @ sep @ join sep (y # ys)"

text \<open>Modelled from the spec: the serialization of section 4.3: the pairs
  \<^verbatim>\<open>name=value\<close> joined by \<^verbatim>\<open>"; "\<close>, in the order of the selection. The
  specification names a "delete" marker among the values and defines none; the cookies
  it would skip are those the expiry filter has removed.\<close>

definition serialize :: "cookie list \<Rightarrow> string" where
  "serialize cs = join ''; '' (map (\<lambda>c. cookie_name c @ ''='' @ cookie_value c) cs)"

subsection \<open>Jar facade\<close>

text \<open>Modelled from the spec: \<^verbatim>\<open>setCookie(raw, url)\<close> of section 4.4, the method
  \<^verbatim>\<open>CookieJar.setCookie\<close> of tough-cookie: parse, then remove the key when the cookie is
  expired on arrival, else upsert; a parse error leaves the store as it was.\<close>

definition setCookie ::
  "(string \<Rightarrow> time option) \<Rightarrow> time \<Rightarrow> string \<Rightarrow> url \<Rightarrow> store \<Rightarrow> parse_error + store" where
  "setCookie parse_date now raw u s =
     (case parse parse_date now raw u of
        Inl e \<Rightarrow> Inl e
      | Inr c \<Rightarrow> if expired now c then Inr (delete (key c) s) else Inr (upsert c s))"

text \<open>Modelled from the spec: \<^verbatim>\<open>getCookies(url)\<close> of section 4.4, the method of the same
  name of tough-cookie: the ordered selection, and the store it leaves.\<close>

definition getCookies :: "url \<Rightarrow> time \<Rightarrow> store \<Rightarrow> cookie list \<times> store" where
  "getCookies u now s = select u now s"

text \<open>Modelled from the spec: \<^verbatim>\<open>getCookieString(url)\<close> of section 4.4, the method of the
  same name of tough-cookie: the same selection, serialized; the empty string when
  nothing matches.\<close>

definition getCookieString :: "url \<Rightarrow> time \<Rightarrow> store \<Rightarrow> string \<times> store" where
  "getCookieString u now s = (serialize (fst (select u now s)), snd (select u now s))"

text \<open>Modelled from the spec: \<^verbatim>\<open>removeAllCookies()\<close> of section 4.4, the method of the
  same name of tough-cookie.\<close>

definition removeAllCookies :: "store \<Rightarrow> store" where
  "removeAllCookies s = removeAll_cookies s"


text \<open>Modelled from the spec: a reader of \<^verbatim>\<open>Expires\<close> dates (section 4.1 leaves the grammar
  of dates open), for the examples: it reads the first second of 1970 and no other
  date.\<close>

definition epoch_date :: "string \<Rightarrow> time option" where
  "epoch_date s = (if s = ''Thu, 01 Jan 1970 00:00:00 GMT'' then Some 0 else None)"

section \<open>Properties of the plugin\<close>

subsection \<open>URL resolution\<close>

lemma startsWith_prefix: "startsWith s p = prefix p s"
  by (induction s p rule: startsWith.induct) auto

lemma replace_trailing_slash_rule: "replace_trailing_slash s = without_one_trailing_slash s"
proof (induction s rule: replace_trailing_slash.induct)
  case 1
  show ?case by (simp add: without_one_trailing_slash_def)
next
  case (2 c)
  show ?case by (simp add: without_one_trailing_slash_def suffix_Cons)
next
  case (3 c d cs)
  then show ?case by (simp add: without_one_trailing_slash_def suffix_Cons)
qed

lemma replace_leading_slash_rule: "replace_leading_slash s = without_one_leading_slash s"
  by (cases s) (simp_all add: without_one_leading_slash_def)

text \<open>A relative request URL under the base URL of the client's configuration.\<close>

lemma resolveAbsoluteUrl_example:
  "resolveAbsoluteUrl
     \<lparr>ctx_url = None,
      ctx_req = Some \<lparr>req_url = Some ''/echo-cookies'', req_baseURL = None, req_headers = None\<rparr>,
      ctx_client = Some \<lparr>client_config = Some \<lparr>config_baseURL = Some ''http://localhost:4201/''\<rparr>,
        client_jar = None\<rparr>,
      ctx_res = None\<rparr>
   = ''http://localhost:4201/echo-cookies''"
  by (simp add: resolveAbsoluteUrl_def truthy_def or_empty_def js_or_def req_field_def
      client_baseURL_def)

text \<open>One slash joins the two parts: the base as stripped ends with a slash only when
  the base ended with two, and the request URL as stripped starts with one only when it
  started with two.\<close>

lemma stripped_base_end:
  "suffix ''/'' (replace_trailing_slash s) \<Longrightarrow> suffix ''//'' s"
proof (induction s rule: replace_trailing_slash.induct)
  case 1
  then show ?case by simp
next
  case (2 c)
  then show ?case by (auto simp add: suffix_Cons split: if_splits)
next
  case (3 c d cs)
  have "replace_trailing_slash (d # cs) \<noteq> [] \<or> replace_trailing_slash (d # cs) = []"
    by simp
  then show ?case
  proof
    assume "replace_trailing_slash (d # cs) \<noteq> []"
    then obtain ys y where "replace_trailing_slash (d # cs) = ys @ [y]"
      by (metis rev_exhaust)
    with 3 show ?thesis by (auto simp add: suffix_def)
  next
    assume e: "replace_trailing_slash (d # cs) = []"
    then have "d # cs = ''/''" by (cases cs) (auto split: if_splits)
    with 3(2) e show ?thesis by (auto simp add: suffix_def)
  qed
qed

lemma stripped_url_start:
  "prefix ''/'' (replace_leading_slash s) \<Longrightarrow> prefix ''//'' s"
  by (cases s) (auto split: if_splits)

text \<open>
  Claim C10. URL resolution is a function of the context alone, and it computes the rule
  of the specification: the context URL when set, else an absolute request URL as it is,
  else the base without one trailing slash, a slash, and the request URL without one
  leading slash, else (no base) the request URL.
\<close>

theorem resolveAbsoluteUrl_rule:
  "resolveAbsoluteUrl c =
     resolve_rule (or_empty (ctx_url c)) (or_empty (req_field req_url c)) (base_of c)"
  by (auto simp add: resolveAbsoluteUrl_def resolve_rule_def base_of_def or_empty_def js_or_def
      truthy_def startsWith_prefix replace_trailing_slash_rule replace_leading_slash_rule
      Let_def split: option.splits)

subsection \<open>The request hook\<close>

lemma existingCookie_caller:
  "ctx_req c = Some req \<Longrightarrow>
   or_empty (js_or ((case req_headers req of None \<Rightarrow> Map.empty | Some h \<Rightarrow> h) ''Cookie'')
                   ((case req_headers req of None \<Rightarrow> Map.empty | Some h \<Rightarrow> h) ''cookie''))
   = caller_cookie c"
  by (simp add: caller_cookie_def request_headers_def or_empty_def js_or_def)

text \<open>
  Claim C1. When the request carries a cookie value of the caller's and the jar returns
  a non-empty string, the hook succeeds, the \<^verbatim>\<open>Cookie\<close> header of the outgoing request is
  the caller's value, then \<^verbatim>\<open>"; "\<close>, then the jar's string, and every other header is as
  the caller set it.
\<close>

theorem onRequest_merges_after_caller:
  assumes "ctx_req c \<noteq> None"
    and "caller_cookie c \<noteq> []"
    and "ops_getCookieString ops (resolveAbsoluteUrl c) j = (Inr jarCookie, j')"
    and "jarCookie \<noteq> []"
  shows "\<exists>c'. onRequest ops c j = (Inr c', j')
      \<and> request_headers c' ''Cookie'' = Some (caller_cookie c @ ''; '' @ jarCookie)
      \<and> (\<forall>k. k \<noteq> ''Cookie'' \<longrightarrow> request_headers c' k = request_headers c k)"
proof -
  from assms(1) obtain req where req: "ctx_req c = Some req" by auto
  define h where "h = (case req_headers req of None \<Rightarrow> Map.empty | Some h \<Rightarrow> h)"
  define c' where "c' = c\<lparr>ctx_req := Some (req\<lparr>req_headers :=
      Some (h(''Cookie'' \<mapsto> caller_cookie c @ ''; '' @ jarCookie))\<rparr>)\<rparr>"
  have "onRequest ops c j = (Inr c', j')"
    using assms(2-4) existingCookie_caller [OF req]
    by (simp add: onRequest_def req Let_def c'_def h_def)
  moreover have "request_headers c' ''Cookie'' = Some (caller_cookie c @ ''; '' @ jarCookie)"
    by (simp add: c'_def request_headers_def)
  moreover have "\<forall>k. k \<noteq> ''Cookie'' \<longrightarrow> request_headers c' k = request_headers c k"
    by (simp add: c'_def request_headers_def req h_def)
  ultimately show ?thesis by blast
qed

theorem onRequest_merges_after_caller_witness:
  "\<exists>c'. onRequest
           \<lparr>ops_getCookieString = (\<lambda>url j. (Inr j, j)),
            ops_setCookie = (\<lambda>v url j. (Inr (), j))\<rparr>
           \<lparr>ctx_url = None,
            ctx_req = Some \<lparr>req_url = Some ''/echo-cookies'', req_baseURL = None,
              req_headers = Some [''Cookie'' \<mapsto> ''manual_cookie=from_header'']\<rparr>,
            ctx_client = None, ctx_res = None\<rparr>
           ''jar_cookie=from_jar''
         = (Inr c', ''jar_cookie=from_jar'')
      \<and> request_headers c' ''Cookie'' = Some ''manual_cookie=from_header; jar_cookie=from_jar''"
proof -
  define ops :: "string jar_ops" where
    "ops = \<lparr>ops_getCookieString = (\<lambda>url j. (Inr j, j)), ops_setCookie = (\<lambda>v url j. (Inr (), j))\<rparr>"
  define c where "c = \<lparr>ctx_url = None,
            ctx_req = Some \<lparr>req_url = Some ''/echo-cookies'', req_baseURL = None,
              req_headers = Some [''Cookie'' \<mapsto> ''manual_cookie=from_header'']\<rparr>,
            ctx_client = None, ctx_res = None\<rparr>"
  have h1: "ctx_req c \<noteq> None" by (simp add: c_def)
  have cc: "caller_cookie c = ''manual_cookie=from_header''"
    by (simp add: c_def caller_cookie_def request_headers_def truthy_def)
  have h2: "caller_cookie c \<noteq> []" by (simp add: cc)
  have h3: "ops_getCookieString ops (resolveAbsoluteUrl c) ''jar_cookie=from_jar''
      = (Inr ''jar_cookie=from_jar'', ''jar_cookie=from_jar'')"
    by (simp add: ops_def)
  have h4: "''jar_cookie=from_jar'' \<noteq> []" by simp
  from onRequest_merges_after_caller [OF h1 h2 h3 h4]
  have "\<exists>c'. onRequest ops c ''jar_cookie=from_jar'' = (Inr c', ''jar_cookie=from_jar'')
      \<and> request_headers c' ''Cookie'' = Some ''manual_cookie=from_header; jar_cookie=from_jar''"
    by (auto simp add: cc)
  then show ?thesis by (simp add: ops_def c_def)
qed

text \<open>
  Claim C8. When the jar returns the empty string, the hook returns the context it was
  given: the headers object is the same, with no \<^verbatim>\<open>Cookie\<close> entry added and no entry
  changed.
\<close>

theorem onRequest_empty_jar_string:
  assumes "ctx_req c \<noteq> None"
    and "ops_getCookieString ops (resolveAbsoluteUrl c) j = (Inr [], j')"
  shows "onRequest ops c j = (Inr c, j')"
  using assms by (auto simp add: onRequest_def Let_def split: option.splits)

theorem onRequest_empty_jar_string_witness:
  "onRequest
     \<lparr>ops_getCookieString = (\<lambda>url j. (Inr j, j)), ops_setCookie = (\<lambda>v url j. (Inr (), j))\<rparr>
     \<lparr>ctx_url = None,
      ctx_req = Some \<lparr>req_url = Some ''/echo-cookies'', req_baseURL = None,
        req_headers = Some [''Accept'' \<mapsto> ''application/json'']\<rparr>,
      ctx_client = None, ctx_res = None\<rparr>
     []
   = (Inr \<lparr>ctx_url = None,
      ctx_req = Some \<lparr>req_url = Some ''/echo-cookies'', req_baseURL = None,
        req_headers = Some [''Accept'' \<mapsto> ''application/json'']\<rparr>,
      ctx_client = None, ctx_res = None\<rparr>, [])"
proof -
  define ops :: "string jar_ops" where
    "ops = \<lparr>ops_getCookieString = (\<lambda>url j. (Inr j, j)), ops_setCookie = (\<lambda>v url j. (Inr (), j))\<rparr>"
  define c where "c = \<lparr>ctx_url = None,
      ctx_req = Some \<lparr>req_url = Some ''/echo-cookies'', req_baseURL = None,
        req_headers = Some [''Accept'' \<mapsto> ''application/json'']\<rparr>,
      ctx_client = None, ctx_res = None\<rparr>"
  have h1: "ctx_req c \<noteq> None" by (simp add: c_def)
  have h2: "ops_getCookieString ops (resolveAbsoluteUrl c) [] = (Inr [], [])"
    by (simp add: ops_def)
  show ?thesis
    using onRequest_empty_jar_string [OF h1 h2] by (simp add: ops_def c_def)
qed

subsection \<open>The response hook\<close>

text \<open>
  Claim C9. When the context has no response, or the response has no headers, the hook
  ends without an error, the jar is the one it was given and nothing is written to the
  console.
\<close>

theorem onResponse_without_headers:
  assumes "ctx_res c = None \<or> (\<exists>r. ctx_res c = Some r \<and> res_headers r = None)"
  shows "onResponse ops c j = (Inr (), j, [])"
  using assms by (auto simp add: onResponse_def storeSetCookiesFromResponse_def)

theorem onResponse_without_headers_witness:
  "onResponse
     \<lparr>ops_getCookieString = (\<lambda>url j. (Inr [], j)), ops_setCookie = (\<lambda>v url j. (Inr (), v # j))\<rparr>
     \<lparr>ctx_url = Some ''http://localhost:4201/set-cookie'', ctx_req = None, ctx_client = None,
      ctx_res = Some \<lparr>res_headers = None,
        res_raw_headers_set_cookie = Arr [''session=abc123; Path=/''],
        res_meta_set_cookie = Absent\<rparr>\<rparr>
     [''kept=1'']
   = (Inr (), [''kept=1''], [])
 \<and> onResponse
     \<lparr>ops_getCookieString = (\<lambda>url j. (Inr [], j)), ops_setCookie = (\<lambda>v url j. (Inr (), v # j))\<rparr>
     \<lparr>ctx_url = Some ''http://localhost:4201/set-cookie'', ctx_req = None, ctx_client = None,
      ctx_res = None\<rparr>
     [''kept=1'']
   = (Inr (), [''kept=1''], [])"
proof -
  define ops :: "string list jar_ops" where
    "ops = \<lparr>ops_getCookieString = (\<lambda>url j. (Inr [], j)),
            ops_setCookie = (\<lambda>v url j. (Inr (), v # j))\<rparr>"
  define r where "r = \<lparr>res_headers = None,
        res_raw_headers_set_cookie = Arr [''session=abc123; Path=/''],
        res_meta_set_cookie = Absent\<rparr>"
  define c1 where "c1 = \<lparr>ctx_url = Some ''http://localhost:4201/set-cookie'', ctx_req = None,
      ctx_client = None, ctx_res = Some r\<rparr>"
  define c2 where "c2 = \<lparr>ctx_url = Some ''http://localhost:4201/set-cookie'', ctx_req = None,
      ctx_client = None, ctx_res = None\<rparr>"
  have h1: "ctx_res c1 = None \<or> (\<exists>r. ctx_res c1 = Some r \<and> res_headers r = None)"
    by (simp add: c1_def r_def)
  have h2: "ctx_res c2 = None \<or> (\<exists>r. ctx_res c2 = Some r \<and> res_headers r = None)"
    by (simp add: c2_def)
  show ?thesis
    using onResponse_without_headers [OF h1, of ops "[''kept=1'']"]
      onResponse_without_headers [OF h2, of ops "[''kept=1'']"]
    by (simp add: ops_def c1_def c2_def r_def)
qed

subsection \<open>Ingestion of the Set-Cookie values\<close>

lemma store_cookies_append:
  "store_cookies ops url (xs @ ys) j =
     (let (j1, w1) = store_cookies ops url xs j;
          (j2, w2) = store_cookies ops url ys j1
      in (j2, w1 @ w2))"
  by (induction xs arbitrary: j) (auto split: prod.splits sum.splits)

lemma deduplicate_set: "set (deduplicate seen vs) = set vs - seen"
  by (induction vs arbitrary: seen) auto

lemma deduplicate_distinct: "distinct (deduplicate seen vs)"
  by (induction vs arbitrary: seen) (auto simp add: deduplicate_set)


lemma deduplicate_snoc:
  "deduplicate seen (vs @ [v]) =
     deduplicate seen vs @ (if v \<in> seen \<union> set vs then [] else [v])"
  by (induction vs arbitrary: seen) auto




text \<open>The ingestion resolves whatever the response and the jar are.\<close>

lemma storeSetCookiesFromResponse_resolves:
  "fst (storeSetCookiesFromResponse ops j url res) = Inr ()"
  by (simp add: storeSetCookiesFromResponse_def split: option.splits)

lemma onResponse_resolves: "fst (onResponse ops c j) = Inr ()"
  by (simp add: onResponse_def storeSetCookiesFromResponse_resolves)

text \<open>
  Claim C2. Let the values of a response, without duplicates, be \<open>xs\<close>, then \<open>bad\<close>, then
  \<open>ys\<close>, and let the jar refuse \<open>bad\<close>. Then the ingestion ends without an error; the
  console holds the warnings of \<open>xs\<close>, the warning for \<open>bad\<close> and the warnings of \<open>ys\<close>;
  and the values \<open>ys\<close> are stored, one after the other, into the jar as the refused call
  left it. When a refused call leaves the jar as it was, the jar at the end is the jar
  of a response that carries \<open>xs\<close> and \<open>ys\<close> only.
\<close>

theorem ingestion_isolates_failures:
  assumes "res_headers r = Some rawHeaders"
    and "deduplicate {} (setCookieValues rawHeaders r) = xs @ bad # ys"
    and "store_cookies ops url xs j = (j1, w1)"
    and "ops_setCookie ops bad url j1 = (Inl err, j2)"
  shows "storeSetCookiesFromResponse ops j url (Some r) =
           (Inr (), fst (store_cookies ops url ys j2),
            w1 @ warning err # snd (store_cookies ops url ys j2))
       \<and> (j2 = j1 \<longrightarrow>
            fst (snd (storeSetCookiesFromResponse ops j url (Some r))) =
            fst (store_cookies ops url (xs @ ys) j))"
  using assms
  by (simp add: storeSetCookiesFromResponse_def store_cookies_append split: prod.splits)

theorem ingestion_isolates_failures_witness:
  "storeSetCookiesFromResponse
     \<lparr>ops_getCookieString = (\<lambda>url j. (Inr [], j)),
      ops_setCookie = (\<lambda>v url j.
        if CHR ''='' \<in> set v then (Inr (), j @ [v])
        else (Inl (Error ''Cookie failed to parse''), j))\<rparr>
     [] ''http://localhost:4204/set-malformed-cookie''
     (Some \<lparr>res_headers = Some (WithGetSetCookie [''malformed'', ''session=abc123; Path=/'']),
        res_raw_headers_set_cookie = Absent, res_meta_set_cookie = Absent\<rparr>)
   = (Inr (), [''session=abc123; Path=/''],
      [''[cookie-jar] Failed to store cookie: Cookie failed to parse''])"
proof -
  define ops :: "string list jar_ops" where
    "ops = \<lparr>ops_getCookieString = (\<lambda>url j. (Inr [], j)),
      ops_setCookie = (\<lambda>v url j.
        if CHR ''='' \<in> set v then (Inr (), j @ [v])
        else (Inl (Error ''Cookie failed to parse''), j))\<rparr>"
  define r where "r = \<lparr>res_headers = Some (WithGetSetCookie [''malformed'', ''session=abc123; Path=/'']),
        res_raw_headers_set_cookie = Absent, res_meta_set_cookie = Absent\<rparr>"
  define url where "url = ''http://localhost:4204/set-malformed-cookie''"
  have h1: "res_headers r = Some (WithGetSetCookie [''malformed'', ''session=abc123; Path=/''])"
    by (simp add: r_def)
  have h2: "deduplicate {} (setCookieValues (WithGetSetCookie [''malformed'', ''session=abc123; Path=/'']) r)
      = [] @ ''malformed'' # [''session=abc123; Path=/'']"
    by (simp add: setCookieValues_def maybeArray_def r_def)
  have h3: "store_cookies ops url [] [] = ([], [])" by simp
  have h4: "ops_setCookie ops ''malformed'' url [] = (Inl (Error ''Cookie failed to parse''), [])"
    by (simp add: ops_def)
  have rest: "store_cookies ops url [''session=abc123; Path=/''] []
      = ([''session=abc123; Path=/''], [])"
    by (simp add: ops_def)
  from ingestion_isolates_failures [OF h1 h2 h3 h4]
  have "storeSetCookiesFromResponse ops [] url (Some r) =
      (Inr (), [''session=abc123; Path=/''],
       [''[cookie-jar] Failed to store cookie: Cookie failed to parse''])"
    unfolding rest by (simp add: warning_def)
  then show ?thesis by (simp add: ops_def r_def url_def)
qed




subsection \<open>Independent and shared jars\<close>

lemma run_length: "length (run ops ref sched h) = length h"
  by (induction sched arbitrary: h) auto

text \<open>The jar at a position, after a schedule, is its jar at the start with the
  operations made on that position performed in their order.\<close>

lemma run_at:
  "a < length h \<Longrightarrow>
   run ops ref sched h ! a =
     perform_all ops (map snd (filter (\<lambda>step. ref (fst step) = a) sched)) (h ! a)"
proof (induction sched arbitrary: h)
  case Nil
  show ?case by (simp add: perform_all_def)
next
  case (Cons step sched)
  obtain w x where step: "step = (w, x)" by (cases step)
  show ?case
    using Cons.prems Cons.IH [of "h[ref w := perform ops x (h ! ref w)]"]
    by (simp add: step perform_all_def nth_list_update)
qed

text \<open>
  The response hook touches the jar only through \<^verbatim>\<open>setCookie\<close>, once for each value,
  so a response hook that is interrupted between two values is the schedule of these
  calls.
\<close>

lemma store_cookies_calls:
  "fst (store_cookies ops url vs j) =
     perform_all ops (map (\<lambda>v. Direct (\<lambda>j. snd (ops_setCookie ops v url j))) vs) j"
proof (induction vs arbitrary: j)
  case Nil
  show ?case by (simp add: perform_all_def)
next
  case (Cons v vs)
  obtain r j' where step: "ops_setCookie ops v url j = (r, j')"
    by (cases "ops_setCookie ops v url j")
  show ?case
    using Cons.IH [of j']
    by (cases r) (simp_all add: step perform_all_def case_prod_beta)
qed

lemma onResponse_calls:
  "perform ops (Response c) j =
     perform_all ops
       (map (\<lambda>v. Direct (\<lambda>j. snd (ops_setCookie ops v (resolveAbsoluteUrl c) j)))
          (ingested_values (ctx_res c))) j"
  by (simp add: onResponse_def storeSetCookiesFromResponse_def ingested_values_def
      store_cookies_calls perform_all_def split: option.splits)

text \<open>The request hook touches the jar through one \<^verbatim>\<open>getCookieString\<close>.\<close>

lemma onRequest_call:
  "ctx_req c \<noteq> None \<Longrightarrow>
   perform ops (Request c) j = snd (ops_getCookieString ops (resolveAbsoluteUrl c) j)"
  by (auto simp add: onRequest_def Let_def split: option.splits prod.splits sum.splits)

text \<open>After \<^verbatim>\<open>onAttach\<close> the client's \<^verbatim>\<open>jar\<close> is the jar of the plugin.\<close>

lemma onAttach_jar: "client_jar (onAttach p cl) = Some (plugin_jar p)"
  by (simp add: onAttach_def)

text \<open>
  Claim C4. Two plugins made without the \<^verbatim>\<open>jar\<close> option get two new jars, distinct
  from each other and from every jar that existed before, and after any schedule the jar
  of each client is the new jar with the operations of that client alone. Two plugins
  made with the same jar refer to that jar and allocate nothing, and after any schedule
  both clients find the jar with all operations of both performed, in the order of the
  schedule.
\<close>

theorem jars_independent_or_shared:
  fixes ops :: "'j jar_ops"
  shows
  "(\<forall>h0 p1 h1 p2 h2 sched.
      cookieJarPlugin new_CookieJar \<lparr>opt_jar = None\<rparr> h0 = (p1, h1) \<and>
      cookieJarPlugin new_CookieJar \<lparr>opt_jar = None\<rparr> h1 = (p2, h2) \<longrightarrow>
        plugin_jar p1 \<noteq> plugin_jar p2
      \<and> length h0 \<le> plugin_jar p1 \<and> length h0 \<le> plugin_jar p2
      \<and> take (length h0) h2 = h0
      \<and> take (length h0) (run ops (jar_of p1 p2) sched h2) = h0
      \<and> run ops (jar_of p1 p2) sched h2 ! plugin_jar p1 =
          perform_all ops (steps_of First sched) new_CookieJar
      \<and> run ops (jar_of p1 p2) sched h2 ! plugin_jar p2 =
          perform_all ops (steps_of Second sched) new_CookieJar)
   \<and> (\<forall>h0 a p1 h1 p2 h2 sched.
      a < length h0 \<and>
      cookieJarPlugin new_CookieJar \<lparr>opt_jar = Some a\<rparr> h0 = (p1, h1) \<and>
      cookieJarPlugin new_CookieJar \<lparr>opt_jar = Some a\<rparr> h1 = (p2, h2) \<longrightarrow>
        plugin_jar p1 = a \<and> plugin_jar p2 = a \<and> h2 = h0
      \<and> run ops (jar_of p1 p2) sched h2 ! plugin_jar p1 =
          perform_all ops (map snd sched) (h0 ! a)
      \<and> run ops (jar_of p1 p2) sched h2 ! plugin_jar p2 =
          perform_all ops (map snd sched) (h0 ! a))"
proof (intro conjI allI impI)
  fix h0 a p1 h1 p2 h2 and sched :: "(who \<times> 'j operation) list"
  assume h: "a < length h0 \<and>
      cookieJarPlugin new_CookieJar \<lparr>opt_jar = Some a\<rparr> h0 = (p1, h1) \<and>
      cookieJarPlugin new_CookieJar \<lparr>opt_jar = Some a\<rparr> h1 = (p2, h2)"
  then have p: "plugin_jar p1 = a" "plugin_jar p2 = a" "h2 = h0"
    by (auto simp add: cookieJarPlugin_def)
  have "jar_of p1 p2 w = a" for w by (cases w) (simp_all add: p)
  then have all: "filter (\<lambda>step. jar_of p1 p2 (fst step) = a) sched = sched"
    by simp
  show "plugin_jar p1 = a" "plugin_jar p2 = a" "h2 = h0" by (fact p)+
  show "run ops (jar_of p1 p2) sched h2 ! plugin_jar p1 = perform_all ops (map snd sched) (h0 ! a)"
    using h run_at [of a h0 ops "jar_of p1 p2" sched] by (simp add: p all)
  show "run ops (jar_of p1 p2) sched h2 ! plugin_jar p2 = perform_all ops (map snd sched) (h0 ! a)"
    using h run_at [of a h0 ops "jar_of p1 p2" sched] by (simp add: p all)
next
  fix h0 p1 h1 p2 h2 and sched :: "(who \<times> 'j operation) list"
  assume h: "cookieJarPlugin new_CookieJar \<lparr>opt_jar = None\<rparr> h0 = (p1, h1) \<and>
      cookieJarPlugin new_CookieJar \<lparr>opt_jar = None\<rparr> h1 = (p2, h2)"
  then have p: "plugin_jar p1 = length h0" "plugin_jar p2 = Suc (length h0)"
      "h2 = h0 @ [new_CookieJar, new_CookieJar]"
    by (auto simp add: cookieJarPlugin_def)
  have j1: "(jar_of p1 p2 w = length h0) = (w = First)" for w
    by (cases w) (simp_all add: p)
  have j2: "(jar_of p1 p2 w = Suc (length h0)) = (w = Second)" for w
    by (cases w) (simp_all add: p)
  show "plugin_jar p1 \<noteq> plugin_jar p2" by (simp add: p)
  show "length h0 \<le> plugin_jar p1" "length h0 \<le> plugin_jar p2" by (simp_all add: p)
  show "take (length h0) h2 = h0" by (simp add: p)
  show "run ops (jar_of p1 p2) sched h2 ! plugin_jar p1 =
          perform_all ops (steps_of First sched) new_CookieJar"
    using run_at [of "length h0" h2 ops "jar_of p1 p2" sched]
    by (simp add: p steps_of_def j1 nth_append)
  show "run ops (jar_of p1 p2) sched h2 ! plugin_jar p2 =
          perform_all ops (steps_of Second sched) new_CookieJar"
    using run_at [of "Suc (length h0)" h2 ops "jar_of p1 p2" sched]
    by (simp add: p steps_of_def j2 nth_append)
  show "take (length h0) (run ops (jar_of p1 p2) sched h2) = h0"
  proof (rule nth_equalityI)
    show "length (take (length h0) (run ops (jar_of p1 p2) sched h2)) = length h0"
      by (simp add: run_length p)
  next
    fix i assume "i < length (take (length h0) (run ops (jar_of p1 p2) sched h2))"
    then have i: "i < length h0" by simp
    have none: "filter (\<lambda>step. jar_of p1 p2 (fst step) = i) sched = []"
    proof -
      have "jar_of p1 p2 w \<noteq> i" for w using i by (cases w) (simp_all add: p)
      then show ?thesis by simp
    qed
    show "take (length h0) (run ops (jar_of p1 p2) sched h2) ! i = h0 ! i"
      using i run_at [of i h2 ops "jar_of p1 p2" sched]
      by (simp add: p none perform_all_def nth_append)
  qed
qed

theorem jars_independent_or_shared_witness:
  "run \<lparr>ops_getCookieString = (\<lambda>url j. (Inr [], j)),
        ops_setCookie = (\<lambda>v url j. (Inr (), j @ [v]))\<rparr>
     (jar_of \<lparr>plugin_name = ''cookie-jar'', plugin_jar = 0\<rparr>
             \<lparr>plugin_name = ''cookie-jar'', plugin_jar = 1\<rparr>)
     [(First, Response \<lparr>ctx_url = Some ''http://localhost:4206/set-cookie'', ctx_req = None,
         ctx_client = None,
         ctx_res = Some \<lparr>res_headers = Some (WithGetSetCookie [''session=abc123'']),
           res_raw_headers_set_cookie = Absent, res_meta_set_cookie = Absent\<rparr>\<rparr>),
      (Second, Direct (\<lambda>j. j @ [''user=john'']))]
     [[], []] ! 1 = [''user=john'']
 \<and> run \<lparr>ops_getCookieString = (\<lambda>url j. (Inr [], j)),
        ops_setCookie = (\<lambda>v url j. (Inr (), j @ [v]))\<rparr>
     (jar_of \<lparr>plugin_name = ''cookie-jar'', plugin_jar = 0\<rparr>
             \<lparr>plugin_name = ''cookie-jar'', plugin_jar = 0\<rparr>)
     [(First, Response \<lparr>ctx_url = Some ''http://localhost:4206/set-cookie'', ctx_req = None,
         ctx_client = None,
         ctx_res = Some \<lparr>res_headers = Some (WithGetSetCookie [''session=abc123'']),
           res_raw_headers_set_cookie = Absent, res_meta_set_cookie = Absent\<rparr>\<rparr>),
      (Second, Direct (\<lambda>j. j @ [''user=john'']))]
     [[]] ! 0 = [''session=abc123'', ''user=john'']"
proof -
  define ops :: "string list jar_ops" where
    "ops = \<lparr>ops_getCookieString = (\<lambda>url j. (Inr [], j)),
            ops_setCookie = (\<lambda>v url j. (Inr (), j @ [v]))\<rparr>"
  define c where "c = \<lparr>ctx_url = Some ''http://localhost:4206/set-cookie'', ctx_req = None,
         ctx_client = None,
         ctx_res = Some \<lparr>res_headers = Some (WithGetSetCookie [''session=abc123'']),
           res_raw_headers_set_cookie = Absent, res_meta_set_cookie = Absent\<rparr>\<rparr>"
  define sched :: "(who \<times> string list operation) list" where
    "sched = [(First, Response c), (Second, Direct (\<lambda>j. j @ [''user=john'']))]"
  define p0 where "p0 = \<lparr>plugin_name = ''cookie-jar'', plugin_jar = 0\<rparr>"
  define p1 where "p1 = \<lparr>plugin_name = ''cookie-jar'', plugin_jar = 1\<rparr>"
  have resp: "perform ops (Response c) j = j @ [''session=abc123'']" for j
    by (simp add: onResponse_def storeSetCookiesFromResponse_def setCookieValues_def
        maybeArray_def c_def ops_def)
  have direct: "perform ops (Direct f) j = f j" for f j
    by simp
  have own: "cookieJarPlugin [] \<lparr>opt_jar = None\<rparr> [] = (p0, [[]]) \<and>
      cookieJarPlugin [] \<lparr>opt_jar = None\<rparr> [[]] = (p1, [[], []])"
    by (simp add: cookieJarPlugin_def p0_def p1_def)
  have shared: "0 < length [[]::string list] \<and>
      cookieJarPlugin [] \<lparr>opt_jar = Some 0\<rparr> [[]] = (p0, [[]]) \<and>
      cookieJarPlugin [] \<lparr>opt_jar = Some 0\<rparr> [[]] = (p0, [[]])"
    by (simp add: cookieJarPlugin_def p0_def)
  note both = jars_independent_or_shared [of "[]" ops]
  from both [THEN conjunct1, rule_format, OF own, of sched]
  have "run ops (jar_of p0 p1) sched [[], []] ! plugin_jar p1 =
      perform_all ops (steps_of Second sched) []"
    by blast
  then have one: "run ops (jar_of p0 p1) sched [[], []] ! 1 = [''user=john'']"
    by (simp add: p1_def steps_of_def sched_def perform_all_def)
  from both [THEN conjunct2, rule_format, OF shared, of sched]
  have "run ops (jar_of p0 p0) sched [[]] ! plugin_jar p0 =
      perform_all ops (map snd sched) ([[]] ! 0)"
    by blast
  then have two: "run ops (jar_of p0 p0) sched [[]] ! 0 = [''session=abc123'', ''user=john'']"
    by (simp add: p0_def sched_def perform_all_def resp direct del: perform.simps)
  show ?thesis
    using one two by (simp only: ops_def c_def sched_def p0_def p1_def)
qed

section \<open>Properties of the jar\<close>

subsection \<open>Store and ordering\<close>

lemma precedes_total: "precedes a b \<or> precedes b a"
  by (auto simp add: precedes_def)

lemma precedes_trans: "precedes a b \<Longrightarrow> precedes b c \<Longrightarrow> precedes a c"
  by (auto simp add: precedes_def)

lemma set_insert_ordered: "set (insert_ordered c xs) = insert c (set xs)"
  by (induction xs) auto

lemma sorted_insert_ordered:
  "sorted_wrt precedes xs \<Longrightarrow> sorted_wrt precedes (insert_ordered c xs)"
proof (induction xs)
  case Nil
  show ?case by simp
next
  case (Cons x xs)
  show ?case
  proof (cases "precedes c x")
    case True
    then show ?thesis using Cons.prems by (auto intro: precedes_trans)
  next
    case False
    then have "precedes x c" using precedes_total by blast
    then show ?thesis using Cons False by (auto simp add: set_insert_ordered)
  qed
qed

lemma sorted_order_cookies: "sorted_wrt precedes (order_cookies cs)"
  by (induction cs) (simp_all add: order_cookies_def sorted_insert_ordered)

lemma set_order_cookies: "set (order_cookies cs) = set cs"
  by (induction cs) (simp_all add: order_cookies_def set_insert_ordered)






lemma delete_absent: "k \<notin> key ` set (delete k s)"
  by (auto simp add: delete_def)

lemma select_subset: "set (fst (select u t s)) \<subseteq> set s"
  by (auto simp add: select_def set_order_cookies)

subsection \<open>Expiry on arrival\<close>

lemma parse_expiry:
  "parse pd now raw u = Inr c \<Longrightarrow> cookie_expiry c = expiry_of pd now raw"
  by (auto simp add: parse_def split: sum.splits prod.splits)


lemmas evaluation =
  parse_def parse_pair_def parse_domain_def parse_path_def parse_sameSite_def expiry_of_def
  max_age_def expires_def raw_attributes_def attribute_list_def attribute_value_def
  attribute_def trim_def whitespace_def control_def lower_def lower_char_def cookie_octet_def
  unquote_def signed_integer_def epoch_date_def default_path_def

text \<open>
  Claim C5, as amended. A well-formed cookie that arrives with \<^verbatim>\<open>Max-Age=0\<close>, or with an
  \<^verbatim>\<open>Expires\<close> date in the past and no \<^verbatim>\<open>Max-Age\<close> that is a signed integer, is not
  stored: the set succeeds and deletes the entry of its key, and no later
  \<^verbatim>\<open>getCookies\<close> or \<^verbatim>\<open>getCookieString\<close>, for any URL and at any time, returns a cookie
  of that key from the store the set left.
\<close>

theorem expired_on_arrival_is_removed:
  assumes "parse pd now raw u = Inr c"
    and "max_age raw = Some 0 \<or> (max_age raw = None \<and> (\<exists>e. expires pd raw = Some e \<and> e < now))"
  shows "setCookie pd now raw u s = Inr (delete (key c) s)
       \<and> key c \<notin> key ` set (delete (key c) s)
       \<and> key c \<notin> key ` set (fst (getCookies u' t (delete (key c) s)))
       \<and> key c \<notin> key ` set (snd (getCookies u' t (delete (key c) s)))
       \<and> fst (getCookieString u' t (delete (key c) s)) =
           serialize (fst (getCookies u' t (delete (key c) s)))"
proof -
  have "expired now c"
    using assms parse_expiry [OF assms(1)]
    by (auto simp add: expired_def expiry_of_def)
  then have set: "setCookie pd now raw u s = Inr (delete (key c) s)"
    using assms(1) by (simp add: setCookie_def)
  have gone: "key c \<notin> key ` set (delete (key c) s)"
    by (rule delete_absent)
  have "set (fst (getCookies u' t (delete (key c) s))) \<subseteq> set (delete (key c) s)"
    unfolding getCookies_def by (rule select_subset)
  with gone have got: "key c \<notin> key ` set (fst (getCookies u' t (delete (key c) s)))"
    by blast
  have "set (snd (getCookies u' t (delete (key c) s))) \<subseteq> set (delete (key c) s)"
    by (auto simp add: getCookies_def select_def removeExpired_def)
  with gone have left: "key c \<notin> key ` set (snd (getCookies u' t (delete (key c) s)))"
    by blast
  show ?thesis
    using set gone got left by (simp add: getCookieString_def getCookies_def)
qed

text \<open>
  The claim as it stands fails where both attributes are present: \<^verbatim>\<open>Max-Age\<close> wins, so
  a cookie with an hour to live and an \<^verbatim>\<open>Expires\<close> date of 1970 is stored and returned.
\<close>

theorem past_expires_with_max_age_counterexample:
  "expires epoch_date
     ''temp=value; Path=/; Max-Age=3600; Expires=Thu, 01 Jan 1970 00:00:00 GMT'' = Some 0
 \<and> setCookie epoch_date 1000
     ''temp=value; Path=/; Max-Age=3600; Expires=Thu, 01 Jan 1970 00:00:00 GMT''
     \<lparr>url_scheme = ''http'', url_host = ''localhost'', url_path = ''/''\<rparr> []
   = Inr [\<lparr>cookie_name = ''temp'', cookie_value = ''value'', cookie_domain = ''localhost'',
          cookie_hostOnly = True, cookie_path = ''/'', cookie_secure = False,
          cookie_httpOnly = False, cookie_sameSite = SameSiteUnset, cookie_expiry = Some 4600,
          cookie_creationTime = 1000, cookie_lastAccessTime = 1000\<rparr>]
 \<and> fst (getCookieString \<lparr>url_scheme = ''http'', url_host = ''localhost'', url_path = ''/''\<rparr> 1000
       [\<lparr>cookie_name = ''temp'', cookie_value = ''value'', cookie_domain = ''localhost'',
          cookie_hostOnly = True, cookie_path = ''/'', cookie_secure = False,
          cookie_httpOnly = False, cookie_sameSite = SameSiteUnset, cookie_expiry = Some 4600,
          cookie_creationTime = 1000, cookie_lastAccessTime = 1000\<rparr>])
   = ''temp=value''"
proof (intro conjI)
  show "expires epoch_date
     ''temp=value; Path=/; Max-Age=3600; Expires=Thu, 01 Jan 1970 00:00:00 GMT'' = Some 0"
    by (simp add: evaluation)
  show "setCookie epoch_date 1000
     ''temp=value; Path=/; Max-Age=3600; Expires=Thu, 01 Jan 1970 00:00:00 GMT''
     \<lparr>url_scheme = ''http'', url_host = ''localhost'', url_path = ''/''\<rparr> []
   = Inr [\<lparr>cookie_name = ''temp'', cookie_value = ''value'', cookie_domain = ''localhost'',
          cookie_hostOnly = True, cookie_path = ''/'', cookie_secure = False,
          cookie_httpOnly = False, cookie_sameSite = SameSiteUnset, cookie_expiry = Some 4600,
          cookie_creationTime = 1000, cookie_lastAccessTime = 1000\<rparr>]"
    by (simp add: setCookie_def expired_def evaluation)
  show "fst (getCookieString \<lparr>url_scheme = ''http'', url_host = ''localhost'', url_path = ''/''\<rparr> 1000
       [\<lparr>cookie_name = ''temp'', cookie_value = ''value'', cookie_domain = ''localhost'',
          cookie_hostOnly = True, cookie_path = ''/'', cookie_secure = False,
          cookie_httpOnly = False, cookie_sameSite = SameSiteUnset, cookie_expiry = Some 4600,
          cookie_creationTime = 1000, cookie_lastAccessTime = 1000\<rparr>])
   = ''temp=value''"
    by (simp add: getCookieString_def select_def expired_def domain_match_def path_match_def
        secure_match_def order_cookies_def serialize_def lower_def lower_char_def)
qed

theorem expired_on_arrival_is_removed_witness:
  "setCookie epoch_date 1000 ''temp=value; Path=/; Max-Age=0''
     \<lparr>url_scheme = ''http'', url_host = ''localhost'', url_path = ''/''\<rparr>
     [\<lparr>cookie_name = ''temp'', cookie_value = ''value'', cookie_domain = ''localhost'',
       cookie_hostOnly = True, cookie_path = ''/'', cookie_secure = False,
       cookie_httpOnly = False, cookie_sameSite = SameSiteUnset, cookie_expiry = None,
       cookie_creationTime = 900, cookie_lastAccessTime = 900\<rparr>]
   = Inr []
 \<and> setCookie epoch_date 1000 ''expired=value; Path=/; Expires=Thu, 01 Jan 1970 00:00:00 GMT''
     \<lparr>url_scheme = ''http'', url_host = ''localhost'', url_path = ''/''\<rparr> []
   = Inr []"
proof -
  define u where "u = \<lparr>url_scheme = ''http'', url_host = ''localhost'', url_path = ''/''\<rparr>"
  define old where "old = \<lparr>cookie_name = ''temp'', cookie_value = ''value'',
       cookie_domain = ''localhost'',
       cookie_hostOnly = True, cookie_path = ''/'', cookie_secure = False,
       cookie_httpOnly = False, cookie_sameSite = SameSiteUnset, cookie_expiry = None,
       cookie_creationTime = 900, cookie_lastAccessTime = 900\<rparr>"
  define c1 where "c1 = old\<lparr>cookie_expiry := Some 1000, cookie_creationTime := 1000,
       cookie_lastAccessTime := 1000\<rparr>"
  define c2 where "c2 = old\<lparr>cookie_name := ''expired'', cookie_expiry := Some 0,
       cookie_creationTime := 1000, cookie_lastAccessTime := 1000\<rparr>"
  have p1: "parse epoch_date 1000 ''temp=value; Path=/; Max-Age=0'' u = Inr c1"
    by (simp add: u_def c1_def old_def evaluation)
  have m1: "max_age ''temp=value; Path=/; Max-Age=0'' = Some 0
      \<or> (max_age ''temp=value; Path=/; Max-Age=0'' = None
          \<and> (\<exists>e. expires epoch_date ''temp=value; Path=/; Max-Age=0'' = Some e \<and> e < 1000))"
    by (simp add: evaluation)
  have p2: "parse epoch_date 1000
      ''expired=value; Path=/; Expires=Thu, 01 Jan 1970 00:00:00 GMT'' u = Inr c2"
    by (simp add: u_def c2_def old_def evaluation)
  have m2: "max_age ''expired=value; Path=/; Expires=Thu, 01 Jan 1970 00:00:00 GMT'' = Some 0
      \<or> (max_age ''expired=value; Path=/; Expires=Thu, 01 Jan 1970 00:00:00 GMT'' = None
          \<and> (\<exists>e. expires epoch_date
                 ''expired=value; Path=/; Expires=Thu, 01 Jan 1970 00:00:00 GMT'' = Some e
               \<and> e < 1000))"
    by (simp add: evaluation)
  have d1: "delete (key c1) [old] = []"
    by (simp add: delete_def key_def c1_def old_def)
  have d2: "delete (key c2) [] = []"
    by (simp add: delete_def)
  from expired_on_arrival_is_removed [OF p1 m1, of "[old]"]
  have one: "setCookie epoch_date 1000 ''temp=value; Path=/; Max-Age=0'' u [old] = Inr []"
    unfolding d1 by blast
  from expired_on_arrival_is_removed [OF p2 m2, of "[]"]
  have two: "setCookie epoch_date 1000
      ''expired=value; Path=/; Expires=Thu, 01 Jan 1970 00:00:00 GMT'' u [] = Inr []"
    unfolding d2 by blast
  show ?thesis
    using one two by (simp only: u_def old_def)
qed


subsection \<open>Order of the selection\<close>

text \<open>
  Claim C6. The cookies that \<^verbatim>\<open>getCookies\<close> returns are in order, longer path first and
  among paths of one length earlier creationTime first, and \<^verbatim>\<open>getCookieString\<close>
  serializes the same sequence. After \<^verbatim>\<open>name=root; Path=/\<close> and
  \<^verbatim>\<open>name=api; Path=/api\<close> are set for one host, at any times, a query for
  \<^verbatim>\<open>/api/anything\<close> on that host returns both, the cookie of \<^verbatim>\<open>/api\<close> first.
\<close>

theorem getCookies_ordered:
  "sorted_wrt precedes (fst (getCookies u t s))
 \<and> fst (getCookieString u t s) = serialize (fst (getCookies u t s))
 \<and> (\<exists>s1 s2.
      setCookie pd t1 ''name=root; Path=/''
        \<lparr>url_scheme = scheme, url_host = host, url_path = ''/''\<rparr> [] = Inr s1
    \<and> setCookie pd t2 ''name=api; Path=/api''
        \<lparr>url_scheme = scheme, url_host = host, url_path = ''/''\<rparr> s1 = Inr s2
    \<and> map (\<lambda>c. (cookie_path c, cookie_name c, cookie_value c))
          (fst (getCookies \<lparr>url_scheme = scheme, url_host = host, url_path = ''/api/anything''\<rparr>
             t3 s2))
        = [(''/api'', ''name'', ''api''), (''/'', ''name'', ''root'')]
    \<and> fst (getCookieString \<lparr>url_scheme = scheme, url_host = host, url_path = ''/api/anything''\<rparr>
             t3 s2)
        = ''name=api; name=root'')"
proof (intro conjI)
  show "sorted_wrt precedes (fst (getCookies u t s))"
    by (simp add: getCookies_def select_def sorted_order_cookies)
  show "fst (getCookieString u t s) = serialize (fst (getCookies u t s))"
    by (simp add: getCookieString_def getCookies_def)
  define u0 where "u0 = \<lparr>url_scheme = scheme, url_host = host, url_path = ''/''\<rparr>"
  define q where "q = \<lparr>url_scheme = scheme, url_host = host, url_path = ''/api/anything''\<rparr>"
  define root where "root = \<lparr>cookie_name = ''name'', cookie_value = ''root'',
      cookie_domain = lower host, cookie_hostOnly = True, cookie_path = ''/'',
      cookie_secure = False, cookie_httpOnly = False, cookie_sameSite = SameSiteUnset,
      cookie_expiry = None, cookie_creationTime = t1, cookie_lastAccessTime = t1\<rparr>"
  define api where "api = \<lparr>cookie_name = ''name'', cookie_value = ''api'',
      cookie_domain = lower host, cookie_hostOnly = True, cookie_path = ''/api'',
      cookie_secure = False, cookie_httpOnly = False, cookie_sameSite = SameSiteUnset,
      cookie_expiry = None, cookie_creationTime = t2, cookie_lastAccessTime = t2\<rparr>"
  have p1: "parse pd t1 ''name=root; Path=/'' u0 = Inr root"
    by (simp add: u0_def root_def evaluation)
  have p2: "parse pd t2 ''name=api; Path=/api'' u0 = Inr api"
    by (simp add: u0_def api_def evaluation)
  have s1: "setCookie pd t1 ''name=root; Path=/'' u0 [] = Inr [root]"
    by (simp add: setCookie_def p1) (simp add: expired_def root_def)
  have s2: "setCookie pd t2 ''name=api; Path=/api'' u0 [root] = Inr [root, api]"
    by (simp add: setCookie_def p2) (simp add: expired_def key_def root_def api_def)
  have sel: "fst (getCookies q t3 [root, api]) = [api, root]"
    by (simp add: getCookies_def select_def expired_def domain_match_def path_match_def
        secure_match_def order_cookies_def precedes_def root_def api_def q_def)
  have str: "fst (getCookieString q t3 [root, api]) = ''name=api; name=root''"
    using sel by (simp add: getCookieString_def getCookies_def serialize_def root_def api_def)
  have els: "map (\<lambda>c. (cookie_path c, cookie_name c, cookie_value c))
        (fst (getCookies q t3 [root, api]))
      = [(''/api'', ''name'', ''api''), (''/'', ''name'', ''root'')]"
    by (simp add: sel) (simp add: root_def api_def)
  have "\<exists>s1 s2.
      setCookie pd t1 ''name=root; Path=/'' u0 [] = Inr s1
    \<and> setCookie pd t2 ''name=api; Path=/api'' u0 s1 = Inr s2
    \<and> map (\<lambda>c. (cookie_path c, cookie_name c, cookie_value c)) (fst (getCookies q t3 s2))
        = [(''/api'', ''name'', ''api''), (''/'', ''name'', ''root'')]
    \<and> fst (getCookieString q t3 s2) = ''name=api; name=root''"
    by (rule exI, rule exI, intro conjI) (rule s1, rule s2, rule els, rule str)
  then show "\<exists>s1 s2.
      setCookie pd t1 ''name=root; Path=/''
        \<lparr>url_scheme = scheme, url_host = host, url_path = ''/''\<rparr> [] = Inr s1
    \<and> setCookie pd t2 ''name=api; Path=/api''
        \<lparr>url_scheme = scheme, url_host = host, url_path = ''/''\<rparr> s1 = Inr s2
    \<and> map (\<lambda>c. (cookie_path c, cookie_name c, cookie_value c))
          (fst (getCookies \<lparr>url_scheme = scheme, url_host = host, url_path = ''/api/anything''\<rparr>
             t3 s2))
        = [(''/api'', ''name'', ''api''), (''/'', ''name'', ''root'')]
    \<and> fst (getCookieString \<lparr>url_scheme = scheme, url_host = host, url_path = ''/api/anything''\<rparr>
             t3 s2)
        = ''name=api; name=root''"
    unfolding u0_def q_def .
qed


subsection \<open>Setting a cookie twice\<close>










lemma upsert_length: "length s \<le> length (upsert c s)"
  by (induction s) auto






end
